theory Spec2Isabelle
  imports Main
begin

section \<open>CollabLab API: a shallow embedding of \<^verbatim>\<open>src/main.py\<close>\<close>

text \<open>
  The handlers of \<^verbatim>\<open>main.py\<close> are modelled as functions on an explicit database
  state.  Every handler returns its response (or the exception it raises) together
  with the database it leaves behind.  Values the process reads from its environment
  (the clock, a freshly generated ObjectId, the bcrypt salt, the JWT codec, the
  regular-expression engine of the database) are arguments of the handlers.
\<close>

subsection \<open>Errors\<close>

text \<open>
  \<^verbatim>\<open>HTTPException(status_code, detail)\<close> keeps its two arguments.  \<^verbatim>\<open>bson.errors.InvalidId\<close>
  derives from \<^verbatim>\<open>BSONError(Exception)\<close>; no handler catches it, so it leaves the handler
  as it is, and so do \<^verbatim>\<open>TypeError\<close> and \<^verbatim>\<open>AttributeError\<close>.  \<^verbatim>\<open>OperationFailure\<close> is what
  the driver raises when the server rejects a query.
\<close>

datatype error =
    HTTPException nat string
  | InvalidId
  | TypeError
  | AttributeError
  | OperationFailure

definition status_code :: "error \<Rightarrow> nat option" where
  "status_code e = (case e of HTTPException c _ \<Rightarrow> Some c | _ \<Rightarrow> None)"

subsection \<open>Strings\<close>

text \<open>
  \<^verbatim>\<open>str.lower\<close> on ASCII: a letter \<open>A\<close> .. \<open>Z\<close> (codes 65 .. 90) gets bit 5 set, which
  adds 32 to its code; every other character stays.
\<close>

definition lower_char :: "char \<Rightarrow> char" where
  "lower_char c =
     (let n = (of_char c :: nat)
      in if 65 \<le> n \<and> n \<le> 90
         then (case c of Char b0 b1 b2 b3 b4 b5 b6 b7 \<Rightarrow> Char b0 b1 b2 b3 b4 True b6 b7)
         else c)"

definition lower :: "string \<Rightarrow> string" where
  "lower s = map lower_char s"

text \<open>\<^verbatim>\<open>s.split(" ")\<close>: the pieces between single spaces, empty pieces kept.\<close>

fun split_sp :: "string \<Rightarrow> string list" where
  "split_sp [] = [[]]"
| "split_sp (c # cs) =
     (if c = CHR '' '' then [] # split_sp cs
      else (case split_sp cs of [] \<Rightarrow> [[c]] | w # ws \<Rightarrow> (c # w) # ws))"

subsection \<open>ObjectId\<close>

text \<open>
  An ObjectId is twelve bytes; \<^verbatim>\<open>str\<close> prints them as 24 lower-case hexadecimal digits
  and \<^verbatim>\<open>ObjectId(s)\<close> reads a string of 24 hexadecimal digits of either case, raising
  \<^verbatim>\<open>InvalidId\<close> on a string of any other length or with another character.  The value is
  kept as its canonical (lower-case) text.
\<close>

datatype oid = Oid string

fun str_oid :: "oid \<Rightarrow> string" where
  "str_oid (Oid s) = s"

definition is_hex :: "char \<Rightarrow> bool" where
  "is_hex c \<longleftrightarrow>
     (let n = (of_char c :: nat)
      in (48 \<le> n \<and> n \<le> 57) \<or> (97 \<le> n \<and> n \<le> 102) \<or> (65 \<le> n \<and> n \<le> 70))"

definition ObjectId :: "string \<Rightarrow> error + oid" where
  "ObjectId s =
     (if length s = 24 \<and> list_all is_hex s then Inr (Oid (lower s)) else Inl InvalidId)"

subsection \<open>Collections\<close>

text \<open>
  A collection is the list of its documents in insertion order.  The operations are
  those of the driver that the handlers call, with the filter as a predicate.
\<close>

definition find_one :: "('a \<Rightarrow> bool) \<Rightarrow> 'a list \<Rightarrow> 'a option" where
  "find_one P xs = List.find P xs"

definition insert_one :: "'a \<Rightarrow> 'a list \<Rightarrow> 'a list" where
  "insert_one x xs = xs @ [x]"

fun update_one :: "('a \<Rightarrow> bool) \<Rightarrow> ('a \<Rightarrow> 'a) \<Rightarrow> 'a list \<Rightarrow> 'a list" where
  "update_one P f [] = []"
| "update_one P f (x # xs) = (if P x then f x # xs else x # update_one P f xs)"

fun delete_one :: "('a \<Rightarrow> bool) \<Rightarrow> 'a list \<Rightarrow> 'a list" where
  "delete_one P [] = []"
| "delete_one P (x # xs) = (if P x then xs else x # delete_one P xs)"

definition delete_many :: "('a \<Rightarrow> bool) \<Rightarrow> 'a list \<Rightarrow> 'a list" where
  "delete_many P xs = filter (\<lambda>x. \<not> P x) xs"

subsection \<open>Documents\<close>

text \<open>Timestamps are integers (a point on the UTC time line).\<close>

type_synonym datetime = int

record user_doc =
  u_id :: oid
  u_name :: string
  u_email :: string
  u_password_hash :: string
  u_provider :: string
  u_created_at :: datetime

record ProjectIn =
  title :: string
  description :: string
  skills_required :: "string list"
  expected_contribution :: "string option"
  duration :: "string option"
  tags :: "string list"
  visibility :: string

record project_doc = ProjectIn +
  p_id :: oid
  p_owner_id :: string
  p_created_at :: datetime
  p_updated_at :: "datetime option"

record ProjectOut = ProjectIn +
  out_id :: string
  out_owner_id :: string
  out_created_at :: datetime

record saved_doc =
  s_id :: oid
  s_user_id :: string
  s_project_id :: string
  s_created_at :: datetime

record request_doc =
  r_id :: oid
  r_project_id :: string
  r_applicant_id :: string
  r_message :: string
  r_portfolio_url :: string
  r_document_path :: string
  r_status :: string
  r_created_at :: datetime

text \<open>
  The state the handlers act on: the four collections of \<^verbatim>\<open>db\<close> and the files under
  the upload directory (path to content).
\<close>

record database =
  users :: "user_doc list"
  projects :: "project_doc list"
  savedproject :: "saved_doc list"
  collaborationrequest :: "request_doc list"
  files :: "string \<Rightarrow> string option"

record AuthUser =
  au_id :: string
  au_email :: string
  au_name :: "string option"


subsection \<open>Tokens\<close>

text \<open>
  A token's payload is a JSON object: a dictionary from claim names to JSON values
  (numbers other than integers are left out).  \<^verbatim>\<open>payload.get(k)\<close> is \<open>dict_get\<close>, and
  \<open>truthy\<close> is Python's truth value of what it returns (\<^verbatim>\<open>None\<close> when the key is absent).
\<close>

datatype jval =
    JStr string
  | JInt int
  | JBool bool
  | JNull
  | JArr "jval list"
  | JObj "(string \<times> jval) list"

type_synonym claims = "(string \<times> jval) list"

definition dict_get :: "claims \<Rightarrow> string \<Rightarrow> jval option" where
  "dict_get d k = map_of d k"

fun truthy :: "jval option \<Rightarrow> bool" where
  "truthy None = False"
| "truthy (Some (JStr s)) = (s \<noteq> [])"
| "truthy (Some (JInt i)) = (i \<noteq> 0)"
| "truthy (Some (JBool b)) = b"
| "truthy (Some JNull) = False"
| "truthy (Some (JArr xs)) = (xs \<noteq> [])"
| "truthy (Some (JObj kvs)) = (kvs \<noteq> [])"

text \<open>
  \<^verbatim>\<open>jwt.encode(payload, JWT_SECRET, algorithm=JWT_ALG)\<close> and
  \<^verbatim>\<open>jwt.decode(token, JWT_SECRET, algorithms=[JWT_ALG])\<close> belong to the jose library.  They
  are arguments of the functions that call them: \<open>jwt_encode\<close> of type
  \<^typ>\<open>claims \<Rightarrow> string\<close>, and \<open>jwt_decode\<close> of type \<^typ>\<open>datetime \<Rightarrow> string \<Rightarrow> claims option\<close>,
  which is given the time of the call and returns \<open>None\<close> where the library raises
  \<^verbatim>\<open>JWTError\<close>.  \<open>iat\<close> is the clock as \<^verbatim>\<open>create_token\<close> reads it, in whole seconds.
\<close>

definition create_token :: "(claims \<Rightarrow> string) \<Rightarrow> int \<Rightarrow> string \<Rightarrow> string \<Rightarrow> string" where
  "create_token jwt_encode iat user_id email =
     (let payload = [(''sub'', JStr user_id), (''email'', JStr email), (''iat'', JInt iat)]
      in jwt_encode payload)"

text \<open>
  The claims that bound a token's validity in time (RFC 7519): \<open>exp\<close>, after which it
  is expired, and \<open>nbf\<close>, before which it is not yet valid.
\<close>

definition time_limited :: "claims \<Rightarrow> bool" where
  "time_limited payload \<longleftrightarrow> dict_get payload ''exp'' \<noteq> None \<or> dict_get payload ''nbf'' \<noteq> None"

record TokenResponse =
  access_token :: string
  token_type :: string

subsection \<open>The guard\<close>

text \<open>\<^verbatim>\<open>ObjectId(user_id)\<close> on a claim value: only a string is read, another value is a
  \<^verbatim>\<open>TypeError\<close>.\<close>

fun ObjectId_of :: "jval option \<Rightarrow> error + oid" where
  "ObjectId_of (Some (JStr s)) = ObjectId s"
| "ObjectId_of _ = Inl TypeError"

definition invalid_token :: error where
  "invalid_token = HTTPException 401 ''Invalid or expired token''"

text \<open>
  \<^verbatim>\<open>get_current_user\<close>.  The \<^verbatim>\<open>try\<close> block turns \<^verbatim>\<open>JWTError\<close> and \<^verbatim>\<open>ValueError\<close> (the
  failed unpacking of the split, the two explicit raises) into the 401 of
  \<open>invalid_token\<close>; the \<^verbatim>\<open>HTTPException\<close> for a missing user and the \<^verbatim>\<open>InvalidId\<close> of
  \<^verbatim>\<open>ObjectId\<close> are neither and pass through.  \<open>jwt_decode\<close> is here the library's
  function at the time of the request.
\<close>

definition get_current_user ::
  "(string \<Rightarrow> claims option) \<Rightarrow> database \<Rightarrow> string option \<Rightarrow> error + AuthUser" where
  "get_current_user jwt_decode db authorization =
     (case authorization of
        None \<Rightarrow> Inl (HTTPException 401 ''Missing Authorization header'')
      | Some header \<Rightarrow>
          if header = [] then Inl (HTTPException 401 ''Missing Authorization header'')
          else
            (case split_sp header of
               [scheme, token] \<Rightarrow>
                 if lower scheme \<noteq> ''bearer'' then Inl invalid_token
                 else
                   (case jwt_decode token of
                      None \<Rightarrow> Inl invalid_token
                    | Some payload \<Rightarrow>
                        (let user_id = dict_get payload ''sub'';
                             email = dict_get payload ''email''
                         in if \<not> truthy user_id \<or> \<not> truthy email then Inl invalid_token
                            else
                              (case ObjectId_of user_id of
                                 Inl e \<Rightarrow> Inl e
                               | Inr i \<Rightarrow>
                                   (case find_one (\<lambda>u. u_id u = i) (users db) of
                                      None \<Rightarrow> Inl (HTTPException 401 ''User not found'')
                                    | Some user \<Rightarrow>
                                        Inr \<lparr>au_id = str_oid (u_id user),
                                             au_email = u_email user,
                                             au_name = Some (u_name user)\<rparr>))))
             | _ \<Rightarrow> Inl invalid_token))"

subsection \<open>Auth endpoints\<close>

record SignUpRequest =
  su_name :: string
  su_email :: string
  su_password :: string

text \<open>
  \<^verbatim>\<open>signup\<close>.  \<open>hash_password\<close> is \<^verbatim>\<open>pwd_context.hash\<close> (bcrypt, with the salt it draws in
  this call), \<open>new_id\<close> the \<^verbatim>\<open>_id\<close> the driver gives the inserted document, \<open>now\<close> the
  clock at \<^verbatim>\<open>created_at\<close>.
\<close>

definition signup ::
  "(string \<Rightarrow> string) \<Rightarrow> (claims \<Rightarrow> string) \<Rightarrow> oid \<Rightarrow> datetime \<Rightarrow> int \<Rightarrow>
   database \<Rightarrow> SignUpRequest \<Rightarrow> (error + TokenResponse) \<times> database" where
  "signup hash_password jwt_encode new_id now iat db payload =
     (let existing = find_one (\<lambda>u. u_email u = su_email payload) (users db)
      in if existing \<noteq> None then (Inl (HTTPException 400 ''Email already registered''), db)
         else
           (let user_doc = \<lparr>u_id = new_id,
                            u_name = su_name payload,
                            u_email = su_email payload,
                            u_password_hash = hash_password (su_password payload),
                            u_provider = ''credentials'',
                            u_created_at = now\<rparr>;
                db' = db\<lparr>users := insert_one user_doc (users db)\<rparr>;
                user_id = u_id user_doc;
                token = create_token jwt_encode iat (str_oid user_id) (su_email payload)
            in (Inr \<lparr>access_token = token, token_type = ''bearer''\<rparr>, db')))"

subsection \<open>Projects\<close>

text \<open>The \<^verbatim>\<open>ProjectOut(...)\<close> that four handlers build from a stored project.\<close>

definition project_out :: "project_doc \<Rightarrow> ProjectOut" where
  "project_out p =
     \<lparr>title = title p,
      description = description p,
      skills_required = skills_required p,
      expected_contribution = expected_contribution p,
      duration = duration p,
      tags = tags p,
      visibility = visibility p,
      out_id = str_oid (p_id p),
      out_owner_id = p_owner_id p,
      out_created_at = p_created_at p\<rparr>"

definition create_project ::
  "oid \<Rightarrow> datetime \<Rightarrow> database \<Rightarrow> ProjectIn \<Rightarrow> AuthUser \<Rightarrow> (error + ProjectOut) \<times> database" where
  "create_project new_id now db payload user =
     (let doc = \<lparr>title = title payload,
                 description = description payload,
                 skills_required = skills_required payload,
                 expected_contribution = expected_contribution payload,
                 duration = duration payload,
                 tags = tags payload,
                 visibility = visibility payload,
                 p_id = new_id,
                 p_owner_id = au_id user,
                 p_created_at = now,
                 p_updated_at = None\<rparr>
      in (Inr (project_out doc), db\<lparr>projects := insert_one doc (projects db)\<rparr>))"

text \<open>The \<^verbatim>\<open>$set\<close> of \<^verbatim>\<open>update_project\<close>: every field of the payload, and \<^verbatim>\<open>updated_at\<close>.\<close>

definition set_update :: "ProjectIn \<Rightarrow> datetime \<Rightarrow> project_doc \<Rightarrow> project_doc" where
  "set_update payload now p =
     p\<lparr>title := title payload,
       description := description payload,
       skills_required := skills_required payload,
       expected_contribution := expected_contribution payload,
       duration := duration payload,
       tags := tags payload,
       visibility := visibility payload,
       p_updated_at := Some now\<rparr>"

definition update_project ::
  "datetime \<Rightarrow> database \<Rightarrow> string \<Rightarrow> ProjectIn \<Rightarrow> AuthUser \<Rightarrow> (error + ProjectOut) \<times> database" where
  "update_project now db project_id payload user =
     (case ObjectId project_id of
        Inl e \<Rightarrow> (Inl e, db)
      | Inr i \<Rightarrow>
          (case find_one (\<lambda>p. p_id p = i) (projects db) of
             None \<Rightarrow> (Inl (HTTPException 404 ''Project not found''), db)
           | Some p \<Rightarrow>
               if p_owner_id p \<noteq> au_id user then (Inl (HTTPException 403 ''Not authorized''), db)
               else
                 (let db' = db\<lparr>projects :=
                              update_one (\<lambda>p. p_id p = i) (set_update payload now) (projects db)\<rparr>
                  in case find_one (\<lambda>p. p_id p = i) (projects db') of
                       None \<Rightarrow> (Inl TypeError, db')
                     | Some p' \<Rightarrow> (Inr (project_out p'), db'))))"

datatype ok_response = Ok bool

definition delete_project ::
  "database \<Rightarrow> string \<Rightarrow> AuthUser \<Rightarrow> (error + ok_response) \<times> database" where
  "delete_project db project_id user =
     (case ObjectId project_id of
        Inl e \<Rightarrow> (Inl e, db)
      | Inr i \<Rightarrow>
          (case find_one (\<lambda>p. p_id p = i) (projects db) of
             None \<Rightarrow> (Inl (HTTPException 404 ''Project not found''), db)
           | Some p \<Rightarrow>
               if p_owner_id p \<noteq> au_id user then (Inl (HTTPException 403 ''Not authorized''), db)
               else
                 (Inr (Ok True),
                  db\<lparr>projects := delete_one (\<lambda>p. p_id p = i) (projects db),
                     savedproject := delete_many (\<lambda>s. s_project_id s = project_id) (savedproject db),
                     collaborationrequest :=
                       delete_many (\<lambda>r. r_project_id r = project_id) (collaborationrequest db)\<rparr>)))"

subsection \<open>Saved projects\<close>

datatype saved_response = Saved bool

text \<open>
  \<^verbatim>\<open>save_project\<close>: \<open>new_id\<close> is the \<^verbatim>\<open>_id\<close> the driver generates for the inserted
  document and \<open>now\<close> the clock.  The project id is used as the string it came as.
\<close>

definition save_project ::
  "oid \<Rightarrow> datetime \<Rightarrow> database \<Rightarrow> string \<Rightarrow> AuthUser \<Rightarrow> (error + saved_response) \<times> database" where
  "save_project new_id now db project_id user =
     (let exists = find_one (\<lambda>s. s_user_id s = au_id user \<and> s_project_id s = project_id)
                     (savedproject db)
      in if exists \<noteq> None then (Inr (Saved True), db)
         else (Inr (Saved True),
               db\<lparr>savedproject := insert_one
                     \<lparr>s_id = new_id, s_user_id = au_id user, s_project_id = project_id,
                      s_created_at = now\<rparr> (savedproject db)\<rparr>))"

text \<open>How many saved records there are of a user for a project id.\<close>

definition saved_count :: "database \<Rightarrow> string \<Rightarrow> string \<Rightarrow> nat" where
  "saved_count db uid pid =
     length (filter (\<lambda>s. s_user_id s = uid \<and> s_project_id s = pid) (savedproject db))"

text \<open>The list comprehension \<^verbatim>\<open>[ObjectId(s["project_id"]) for s in saved]\<close>: the first
  string that is no ObjectId raises.\<close>

fun object_ids :: "string list \<Rightarrow> error + oid list" where
  "object_ids [] = Inr []"
| "object_ids (s # ss) =
     (case ObjectId s of
        Inl e \<Rightarrow> Inl e
      | Inr i \<Rightarrow> (case object_ids ss of Inl e \<Rightarrow> Inl e | Inr is \<Rightarrow> Inr (i # is)))"

definition my_saved :: "database \<Rightarrow> AuthUser \<Rightarrow> error + ProjectOut list" where
  "my_saved db user =
     (let saved = filter (\<lambda>s. s_user_id s = au_id user) (savedproject db)
      in case object_ids (map s_project_id saved) of
           Inl e \<Rightarrow> Inl e
         | Inr ids \<Rightarrow> Inr (map project_out (filter (\<lambda>p. p_id p \<in> set ids) (projects db))))"

subsection \<open>Collaboration requests\<close>

text \<open>\<^verbatim>\<open>os.path.join\<close> of two components (POSIX).\<close>

definition path_join :: "string \<Rightarrow> string \<Rightarrow> string" where
  "path_join a b =
     (if b \<noteq> [] \<and> hd b = CHR ''/'' then b
      else if a = [] \<or> last a = CHR ''/'' then a @ b
      else a @ ''/'' @ b)"

record UploadFile =
  filename :: "string option"
  content :: string

text \<open>How an f-string prints \<^verbatim>\<open>document.filename\<close>.\<close>

definition fmt :: "string option \<Rightarrow> string" where
  "fmt x = (case x of None \<Rightarrow> ''None'' | Some s \<Rightarrow> s)"

text \<open>
  \<^verbatim>\<open>apply_to_project\<close>.  \<open>upload_dir\<close> is \<^verbatim>\<open>UPLOAD_DIR\<close>, \<open>file_id\<close> the \<^verbatim>\<open>ObjectId()\<close> generated
  for the file name and \<open>new_id\<close> the \<^verbatim>\<open>_id\<close> of the inserted request.  The write to the
  upload directory is taken to succeed.
\<close>

definition apply_to_project ::
  "string \<Rightarrow> oid \<Rightarrow> oid \<Rightarrow> datetime \<Rightarrow> database \<Rightarrow> string \<Rightarrow> string \<Rightarrow> string \<Rightarrow> UploadFile \<Rightarrow>
   AuthUser \<Rightarrow> (error + ok_response) \<times> database" where
  "apply_to_project upload_dir file_id new_id now db project_id message portfolio_url document user =
     (case ObjectId project_id of
        Inl e \<Rightarrow> (Inl e, db)
      | Inr i \<Rightarrow>
          (let project = find_one (\<lambda>p. p_id p = i) (projects db)
           in if project = None \<or> visibility (the project) = ''private''
              then (Inl (HTTPException 404 ''Project not found''), db)
              else
                (let safe_name = str_oid file_id @ ''_'' @ fmt (filename document);
                     path = path_join upload_dir safe_name;
                     db1 = db\<lparr>files := (files db)(path \<mapsto> content document)\<rparr>;
                     rec = \<lparr>r_id = new_id,
                            r_project_id = project_id,
                            r_applicant_id = au_id user,
                            r_message = message,
                            r_portfolio_url = portfolio_url,
                            r_document_path = path,
                            r_status = ''pending'',
                            r_created_at = now\<rparr>
                 in (Inr (Ok True),
                     db1\<lparr>collaborationrequest := insert_one rec (collaborationrequest db1)\<rparr>))))"

definition update_status ::
  "database \<Rightarrow> string \<Rightarrow> string \<Rightarrow> AuthUser \<Rightarrow> (error + ok_response) \<times> database" where
  "update_status db request_id status user =
     (case ObjectId request_id of
        Inl e \<Rightarrow> (Inl e, db)
      | Inr i \<Rightarrow>
          (case find_one (\<lambda>r. r_id r = i) (collaborationrequest db) of
             None \<Rightarrow> (Inl (HTTPException 404 ''Request not found''), db)
           | Some r \<Rightarrow>
               (case ObjectId (r_project_id r) of
                  Inl e \<Rightarrow> (Inl e, db)
                | Inr j \<Rightarrow>
                    (let p = find_one (\<lambda>p. p_id p = j) (projects db)
                     in if p = None \<or> p_owner_id (the p) \<noteq> au_id user
                        then (Inl (HTTPException 403 ''Not authorized''), db)
                        else if status \<notin> set [''pending'', ''accepted'', ''rejected'']
                        then (Inl (HTTPException 400 ''Invalid status''), db)
                        else
                          (Inr (Ok True),
                           db\<lparr>collaborationrequest :=
                                update_one (\<lambda>r. r_id r = i) (\<lambda>r. r\<lparr>r_status := status\<rparr>)
                                  (collaborationrequest db)\<rparr>)))))"

subsection \<open>Profile\<close>

record ProfileUpdate =
  pu_name :: "string option"

record ProfileOut =
  po_id :: string
  po_email :: string
  po_name :: string

text \<open>\<^verbatim>\<open>payload.model_dump()\<close> without the entries that are \<^verbatim>\<open>None\<close>.\<close>

definition dump_not_none :: "ProfileUpdate \<Rightarrow> (string \<times> string) list" where
  "dump_not_none payload =
     concat (map (\<lambda>(k, v). case v of None \<Rightarrow> [] | Some x \<Rightarrow> [(k, x)]) [(''name'', pu_name payload)])"

text \<open>\<^verbatim>\<open>{"$set": update}\<close> on a user document, field by field.\<close>

fun set_user_field :: "user_doc \<Rightarrow> string \<times> string \<Rightarrow> user_doc" where
  "set_user_field u (k, v) =
     (if k = ''name'' then u\<lparr>u_name := v\<rparr>
      else if k = ''email'' then u\<lparr>u_email := v\<rparr>
      else if k = ''password_hash'' then u\<lparr>u_password_hash := v\<rparr>
      else if k = ''provider'' then u\<lparr>u_provider := v\<rparr>
      else u)"

definition set_user :: "(string \<times> string) list \<Rightarrow> user_doc \<Rightarrow> user_doc" where
  "set_user update u = foldl set_user_field u update"

definition update_me ::
  "database \<Rightarrow> ProfileUpdate \<Rightarrow> AuthUser \<Rightarrow> (error + ProfileOut) \<times> database" where
  "update_me db payload user =
     (let update = dump_not_none payload
      in case ObjectId (au_id user) of
           Inl e \<Rightarrow> (Inl e, db)
         | Inr i \<Rightarrow>
             (let db' = (if update \<noteq> []
                         then db\<lparr>users := update_one (\<lambda>u. u_id u = i) (set_user update) (users db)\<rparr>
                         else db)
              in case find_one (\<lambda>u. u_id u = i) (users db') of
                   None \<Rightarrow> (Inl AttributeError, db')
                 | Some u \<Rightarrow>
                     (Inr \<lparr>po_id = au_id user, po_email = u_email u, po_name = u_name u\<rparr>, db')))"

subsection \<open>Queries on the projects collection\<close>

text \<open>
  \<^verbatim>\<open>list_projects\<close> builds its filter as a dictionary and hands it to \<^verbatim>\<open>find\<close>.  The
  dictionary is kept as the list of its entries; its values are the operators the
  handler uses.  \<open>Alternatives\<close> is the value of \<^verbatim>\<open>"$or"\<close>: a list of one-entry
  dictionaries.
\<close>

datatype cond =
    Eq string
  | Regex string
  | ElemMatchRegex string
  | In "string list"

datatype qvalue = Cond cond | Alternatives "(string \<times> cond) list"

type_synonym query = "(string \<times> qvalue) list"

text \<open>\<^verbatim>\<open>d[k] = v\<close> and \<^verbatim>\<open>d.setdefault(k, v)\<close>.\<close>

definition dict_set :: "('k \<times> 'v) list \<Rightarrow> 'k \<Rightarrow> 'v \<Rightarrow> ('k \<times> 'v) list" where
  "dict_set d k v =
     (if map_of d k = None then d @ [(k, v)]
      else map (\<lambda>(k', v'). if k' = k then (k', v) else (k', v')) d)"

definition setdefault :: "('k \<times> 'v) list \<Rightarrow> 'k \<Rightarrow> 'v \<Rightarrow> ('k \<times> 'v) list" where
  "setdefault d k v = (if map_of d k = None then d @ [(k, v)] else d)"

text \<open>The value a project document has under a field name: a string or an array of
  strings.\<close>

datatype fval = VStr string | VList "string list"

definition project_field :: "project_doc \<Rightarrow> string \<Rightarrow> fval option" where
  "project_field p k =
     (if k = ''title'' then Some (VStr (title p))
      else if k = ''description'' then Some (VStr (description p))
      else if k = ''visibility'' then Some (VStr (visibility p))
      else if k = ''owner_id'' then Some (VStr (p_owner_id p))
      else if k = ''tags'' then Some (VList (tags p))
      else if k = ''skills_required'' then Some (VList (skills_required p))
      else None)"

text \<open>
  The regular-expression engine of the database is the argument \<open>regex\<close>:
  \<open>regex pat\<close> is \<open>None\<close> when the server rejects the pattern, and otherwise the
  case-insensitive search for the pattern in a string (\<^verbatim>\<open>"$options": "i"\<close>).  A field
  that holds an array satisfies an operator when one of its elements does;
  \<^verbatim>\<open>$elemMatch\<close> needs an array.
\<close>

definition regex_search :: "(string \<Rightarrow> (string \<Rightarrow> bool) option) \<Rightarrow> string \<Rightarrow> string \<Rightarrow> bool" where
  "regex_search regex pat s = (case regex pat of None \<Rightarrow> False | Some m \<Rightarrow> m s)"

fun cond_holds :: "(string \<Rightarrow> (string \<Rightarrow> bool) option) \<Rightarrow> fval option \<Rightarrow> cond \<Rightarrow> bool" where
  "cond_holds regex None c = False"
| "cond_holds regex (Some (VStr s)) (Eq v) = (s = v)"
| "cond_holds regex (Some (VList xs)) (Eq v) = (v \<in> set xs)"
| "cond_holds regex (Some (VStr s)) (Regex pat) = regex_search regex pat s"
| "cond_holds regex (Some (VList xs)) (Regex pat) = list_ex (regex_search regex pat) xs"
| "cond_holds regex (Some (VStr s)) (ElemMatchRegex pat) = False"
| "cond_holds regex (Some (VList xs)) (ElemMatchRegex pat) = list_ex (regex_search regex pat) xs"
| "cond_holds regex (Some (VStr s)) (In vs) = (s \<in> set vs)"
| "cond_holds regex (Some (VList xs)) (In vs) = list_ex (\<lambda>x. x \<in> set vs) xs"

text \<open>The entries of the top-level dictionary all have to hold; of \<^verbatim>\<open>"$or"\<close>, one.\<close>

fun entry_holds ::
  "(string \<Rightarrow> (string \<Rightarrow> bool) option) \<Rightarrow> project_doc \<Rightarrow> string \<times> qvalue \<Rightarrow> bool" where
  "entry_holds regex p (k, Cond c) = cond_holds regex (project_field p k) c"
| "entry_holds regex p (k, Alternatives alts) =
     (k = ''$or'' \<and> list_ex (\<lambda>(f, c). cond_holds regex (project_field p f) c) alts)"

definition matches :: "(string \<Rightarrow> (string \<Rightarrow> bool) option) \<Rightarrow> query \<Rightarrow> project_doc \<Rightarrow> bool" where
  "matches regex query p = list_all (entry_holds regex p) query"

fun cond_patterns :: "cond \<Rightarrow> string list" where
  "cond_patterns (Regex pat) = [pat]"
| "cond_patterns (ElemMatchRegex pat) = [pat]"
| "cond_patterns _ = []"

fun entry_patterns :: "string \<times> qvalue \<Rightarrow> string list" where
  "entry_patterns (k, Cond c) = cond_patterns c"
| "entry_patterns (k, Alternatives alts) = concat (map (\<lambda>(f, c). cond_patterns c) alts)"

definition query_patterns :: "query \<Rightarrow> string list" where
  "query_patterns query = concat (map entry_patterns query)"

text \<open>\<^verbatim>\<open>db["projects"].find(query)\<close>: the server refuses a query with a pattern it cannot
  compile.\<close>

definition find_projects ::
  "(string \<Rightarrow> (string \<Rightarrow> bool) option) \<Rightarrow> query \<Rightarrow> project_doc list \<Rightarrow> error + project_doc list" where
  "find_projects regex query docs =
     (if list_ex (\<lambda>pat. regex pat = None) (query_patterns query) then Inl OperationFailure
      else Inr (filter (matches regex query) docs))"

text \<open>\<^verbatim>\<open>.sort("created_at", -1)\<close>: descending.  (Documents with equal keys are kept in
  collection order here; the server promises no order among them.)\<close>

definition sort_created_desc :: "project_doc list \<Rightarrow> project_doc list" where
  "sort_created_desc docs = sort_key (\<lambda>p. - p_created_at p) docs"

text \<open>Python's truth value of an \<^verbatim>\<open>Optional[str]\<close>.\<close>

definition given :: "string option \<Rightarrow> bool" where
  "given x = (case x of None \<Rightarrow> False | Some s \<Rightarrow> s \<noteq> [])"

definition list_projects ::
  "(string \<Rightarrow> (string \<Rightarrow> bool) option) \<Rightarrow> database \<Rightarrow> string option \<Rightarrow> string option \<Rightarrow>
   error + ProjectOut list" where
  "list_projects regex db q tag =
     (let query0 = [(''visibility'', Cond (Eq ''public''))];
          query1 = (if given q
                    then dict_set query0 ''$or''
                           (Alternatives [(''title'', Regex (the q)),
                                          (''description'', Regex (the q)),
                                          (''tags'', ElemMatchRegex (the q))])
                    else query0);
          query2 = (if given tag then setdefault query1 ''tags'' (Cond (In [the tag])) else query1)
      in case find_projects regex query2 (projects db) of
           Inl e \<Rightarrow> Inl e
         | Inr cursor \<Rightarrow> Inr (map project_out (sort_created_desc cursor)))"

subsection \<open>Substrings, and an engine for plain patterns\<close>

text \<open>\<open>contains_ci q s\<close>: \<open>q\<close> occurs in \<open>s\<close> as a substring, letter case ignored.\<close>

fun is_prefix :: "string \<Rightarrow> string \<Rightarrow> bool" where
  "is_prefix [] s = True"
| "is_prefix (c # cs) [] = False"
| "is_prefix (c # cs) (d # ds) = (c = d \<and> is_prefix cs ds)"

fun contains :: "string \<Rightarrow> string \<Rightarrow> bool" where
  "contains q [] = is_prefix q []"
| "contains q (d # ds) = (is_prefix q (d # ds) \<or> contains q ds)"

definition contains_ci :: "string \<Rightarrow> string \<Rightarrow> bool" where
  "contains_ci q s = contains (lower q) (lower s)"

text \<open>
  An engine for the patterns made of ordinary characters and the dot, which stands for
  any character but a line feed; it reads no other pattern.
\<close>

definition meta_chars :: "char list" where
  "meta_chars = [CHR 0x5C, CHR ''^'', CHR ''$'', CHR ''*'', CHR ''+'', CHR ''?'', CHR ''('',
                 CHR '')'', CHR ''['', CHR '']'', CHR ''{'', CHR ''}'', CHR ''|'']"

definition dot_char :: "char \<Rightarrow> char \<Rightarrow> bool" where
  "dot_char a c = (if a = CHR ''.'' then c \<noteq> CHR 0x0A else lower_char a = lower_char c)"

fun dot_prefix :: "string \<Rightarrow> string \<Rightarrow> bool" where
  "dot_prefix [] s = True"
| "dot_prefix (a # as) [] = False"
| "dot_prefix (a # as) (c # cs) = (dot_char a c \<and> dot_prefix as cs)"

fun dot_search :: "string \<Rightarrow> string \<Rightarrow> bool" where
  "dot_search pat [] = dot_prefix pat []"
| "dot_search pat (c # cs) = (dot_prefix pat (c # cs) \<or> dot_search pat cs)"

definition dot_regex :: "string \<Rightarrow> (string \<Rightarrow> bool) option" where
  "dot_regex pat = (if list_ex (\<lambda>c. c \<in> set meta_chars) pat then None else Some (dot_search pat))"

subsection \<open>The states the handlers can reach\<close>

definition empty_db :: database where
  "empty_db = \<lparr>users = [], projects = [], savedproject = [], collaborationrequest = [],
               files = Map.empty\<rparr>"

text \<open>
  From the empty database, any sequence of calls of the handlers that write, with any
  arguments and any requester.
\<close>

inductive reachable :: "database \<Rightarrow> bool" where
  init: "reachable empty_db"
| by_signup: "reachable db \<Longrightarrow>
    reachable (snd (signup hash_password jwt_encode new_id now iat db payload))"
| by_create_project: "reachable db \<Longrightarrow> reachable (snd (create_project new_id now db p_in user))"
| by_update_project: "reachable db \<Longrightarrow> reachable (snd (update_project now db project_id p_in user))"
| by_delete_project: "reachable db \<Longrightarrow> reachable (snd (delete_project db project_id user))"
| by_save_project: "reachable db \<Longrightarrow> reachable (snd (save_project new_id now db project_id user))"
| by_apply: "reachable db \<Longrightarrow>
    reachable (snd (apply_to_project upload_dir file_id new_id now db project_id message
                      portfolio_url document user))"
| by_update_status: "reachable db \<Longrightarrow> reachable (snd (update_status db request_id status user))"
| by_update_me: "reachable db \<Longrightarrow> reachable (snd (update_me db profile user))"

section \<open>Properties of the driver operations\<close>

lemma find_one_None_iff: "find_one P xs = None \<longleftrightarrow> (\<forall>x \<in> set xs. \<not> P x)"
  by (auto simp: find_one_def find_None_iff)

lemma find_one_None_filter: "find_one P xs = None \<Longrightarrow> filter P xs = []"
  by (simp add: find_one_None_iff)

lemma find_one_Some_filter: "find_one P xs = Some x \<Longrightarrow> filter P xs \<noteq> []"
  by (auto simp: find_one_def find_Some_iff filter_empty_conv)

lemma find_one_Some_holds: "find_one P xs = Some x \<Longrightarrow> P x \<and> x \<in> set xs"
  by (auto simp: find_one_def find_Some_iff)

lemma savedproject_signup [simp]:
  "savedproject (snd (signup h e n t i db payload)) = savedproject db"
  by (simp add: signup_def Let_def insert_one_def)

lemma savedproject_create_project [simp]:
  "savedproject (snd (create_project n t db p u)) = savedproject db"
  by (simp add: create_project_def Let_def)

lemma savedproject_update_project [simp]:
  "savedproject (snd (update_project t db pid p u)) = savedproject db"
  by (simp add: update_project_def Let_def split: sum.splits option.splits)

lemma savedproject_apply [simp]:
  "savedproject (snd (apply_to_project d f n t db pid m url doc u)) = savedproject db"
  by (simp add: apply_to_project_def Let_def split: sum.splits)

lemma savedproject_update_status [simp]:
  "savedproject (snd (update_status db rid st u)) = savedproject db"
  by (simp add: update_status_def Let_def split: sum.splits option.splits)

lemma savedproject_update_me [simp]:
  "savedproject (snd (update_me db p u)) = savedproject db"
  by (simp add: update_me_def Let_def split: sum.splits option.splits)

lemma find_one_append:
  "find_one P (xs @ ys) = (case find_one P xs of None \<Rightarrow> find_one P ys | Some x \<Rightarrow> Some x)"
  by (induction xs) (simp_all add: find_one_def)

lemma length_filter_conj_le:
  "length (filter (\<lambda>x. Q x \<and> P x) xs) \<le> length (filter P xs)"
  by (induction xs) auto

lemma saved_count_delete_project:
  "saved_count (snd (delete_project db pid u)) a b \<le> saved_count db a b"
  unfolding saved_count_def delete_project_def delete_many_def
  by (simp add: length_filter_conj_le split: sum.splits option.splits)

subsection \<open>At most one saved record per user and project\<close>

lemma saved_count_save_project:
  "saved_count db a b \<le> 1 \<Longrightarrow> saved_count (snd (save_project n t db pid u)) a b \<le> 1"
proof (cases "find_one (\<lambda>s. s_user_id s = au_id u \<and> s_project_id s = pid) (savedproject db)")
  case None
  assume le: "saved_count db a b \<le> 1"
  from None have "filter (\<lambda>s. s_user_id s = au_id u \<and> s_project_id s = pid) (savedproject db) = []"
    by (rule find_one_None_filter)
  with None le show ?thesis
    by (cases "a = au_id u \<and> b = pid") (auto simp: saved_count_def save_project_def Let_def insert_one_def)
next
  case (Some s)
  assume "saved_count db a b \<le> 1"
  with Some show ?thesis by (simp add: save_project_def Let_def)
qed

lemma reachable_saved_count: "reachable db \<Longrightarrow> saved_count db a b \<le> 1"
proof (induction rule: reachable.induct)
  case init
  show ?case by (simp add: saved_count_def empty_db_def)
next
  case (by_delete_project db project_id user)
  then show ?case using saved_count_delete_project[of db project_id user a b] by linarith
next
  case (by_save_project db new_id now project_id user)
  from by_save_project.IH show ?case by (rule saved_count_save_project)
qed (simp_all add: saved_count_def)

section \<open>The claims\<close>

subsection \<open>C8: saving twice\<close>

text \<open>
  C8.  In every state the handlers can reach, for every requester \<open>u\<close> and every string
  \<open>project_id\<close>, two calls of \<^verbatim>\<open>save_project\<close> in a row both answer \<^verbatim>\<open>{"saved": True}\<close>;
  the second leaves the database as the first left it, which holds exactly one saved
  record of \<open>u\<close> for \<open>project_id\<close>.  Neither call looks at the projects collection:
  the statement holds whatever it contains, and it is left as it was.
\<close>

theorem save_project_idempotent:
  assumes "reachable db"
  shows "case save_project n1 t1 db project_id u of (r1, db1) \<Rightarrow>
           (case save_project n2 t2 db1 project_id u of (r2, db2) \<Rightarrow>
              r1 = Inr (Saved True) \<and> r2 = Inr (Saved True) \<and> db2 = db1 \<and>
              saved_count db2 (au_id u) project_id = 1 \<and>
              projects db2 = projects db)"
proof -
  have le: "saved_count db (au_id u) project_id \<le> 1"
    using assms by (rule reachable_saved_count)
  show ?thesis
  proof (cases "find_one (\<lambda>s. s_user_id s = au_id u \<and> s_project_id s = project_id) (savedproject db)")
    case None
    then show ?thesis
      by (simp add: save_project_def Let_def insert_one_def saved_count_def find_one_append
          find_one_None_filter) (simp add: find_one_def)
  next
    case (Some s)
    then have "saved_count db (au_id u) project_id \<noteq> 0"
      by (auto simp: saved_count_def dest: find_one_Some_filter)
    with le have "saved_count db (au_id u) project_id = 1" by linarith
    with Some show ?thesis
      by (simp add: save_project_def Let_def)
  qed
qed


theorem save_project_idempotent_witness:
  "reachable empty_db \<and>
   (case save_project (Oid ''0123456789abcdef01234567'') 10 empty_db ''no-such-project''
           \<lparr>au_id = ''aaaaaaaaaaaaaaaaaaaaaaaa'', au_email = ''a@b.c'', au_name = None\<rparr> of
      (r1, db1) \<Rightarrow>
        (case save_project (Oid ''0123456789abcdef01234568'') 11 db1 ''no-such-project''
                \<lparr>au_id = ''aaaaaaaaaaaaaaaaaaaaaaaa'', au_email = ''a@b.c'', au_name = None\<rparr> of
           (r2, db2) \<Rightarrow>
             r1 = Inr (Saved True) \<and> r2 = Inr (Saved True) \<and> db2 = db1 \<and>
             saved_count db2 ''aaaaaaaaaaaaaaaaaaaaaaaa'' ''no-such-project'' = 1 \<and>
             projects db2 = projects empty_db))"
  using save_project_idempotent[OF reachable.init, where ?n1.0 = "Oid ''0123456789abcdef01234567''"
      and ?t1.0 = 10 and project_id = "''no-such-project''"
      and u = "\<lparr>au_id = ''aaaaaaaaaaaaaaaaaaaaaaaa'', au_email = ''a@b.c'', au_name = None\<rparr>"
      and ?n2.0 = "Oid ''0123456789abcdef01234568''" and ?t2.0 = 11]
  by (simp add: reachable.init)

end
